theory Spec2Isabelle
  imports Main
begin

section \<open>Ticket tracker: data model\<close>

text \<open>
  The \<^verbatim>\<open>Ticket\<close> interface of the ticket screen. Its fields carry the prefix
  \<open>t_\<close> here, because the component state below has hooks named \<^verbatim>\<open>title\<close>,
  \<^verbatim>\<open>description\<close> and \<^verbatim>\<open>status\<close> as well. The optional field
  \<^verbatim>\<open>rating?: number\<close> is an \<open>int option\<close>: \<^verbatim>\<open>undefined\<close> is \<open>None\<close>.
  The status is a union of three string literals.
\<close>

datatype ticket_status = Created | UnderAssistance | Completed

record ticket =
  t_id :: string
  t_title :: string
  t_description :: string
  t_status :: ticket_status
  t_rating :: "int option"

text \<open>The seven \<^verbatim>\<open>useState\<close> hooks of the component \<^verbatim>\<open>App\<close>.\<close>

record app =
  tickets :: "ticket list"
  modalVisible :: bool
  isEditing :: bool
  currentId :: "string option"
  title :: string
  description :: string
  status :: ticket_status

definition seed :: "ticket list" where
  "seed =
    [\<lparr>t_id = ''1'', t_title = ''Login Issue'',
      t_description = ''User cannot log in with email.'',
      t_status = Created, t_rating = None\<rparr>,
     \<lparr>t_id = ''2'', t_title = ''Payment Bug'',
      t_description = ''Stripe integration failing on iOS.'',
      t_status = UnderAssistance, t_rating = None\<rparr>,
     \<lparr>t_id = ''3'', t_title = ''UI Feedback'',
      t_description = ''Improve dashboard layout.'',
      t_status = Completed, t_rating = Some 4\<rparr>]"

definition initial :: app where
  "initial =
    \<lparr>tickets = seed, modalVisible = False, isEditing = False, currentId = None,
     title = [], description = [], status = Created\<rparr>"

section \<open>The clock and its decimal rendering\<close>

text \<open>
  \<^verbatim>\<open>Date.now().toString()\<close>: the clock reading is an input of the model, a number
  of milliseconds, and \<open>toString\<close> writes it in decimal, most significant digit first.
\<close>

definition digit :: "nat \<Rightarrow> char" where
  "digit d = ''0123456789'' ! d"

function toString :: "nat \<Rightarrow> string" where
  "toString n = (if n < 10 then [digit n] else toString (n div 10) @ [digit (n mod 10)])"
  by pat_completeness auto
termination
  by (relation "measure (\<lambda>n. n)") auto

declare toString.simps [simp del]

section \<open>The state updaters handed to \<^verbatim>\<open>setTickets\<close>\<close>

text \<open>
  Each handler passes \<^verbatim>\<open>setTickets\<close> a function of the previous list. These are
  the four functions, with the values they close over as parameters.
\<close>

definition edit_ticket :: "string \<Rightarrow> string \<Rightarrow> string \<Rightarrow> ticket_status \<Rightarrow> ticket \<Rightarrow> ticket" where
  "edit_ticket cid ttl desc stat t =
    (if t_id t = cid
     then t\<lparr>t_title := ttl, t_description := desc, t_status := stat,
            t_rating := (if stat = Completed then t_rating t else None)\<rparr>
     else t)"

definition edit_updater ::
  "string \<Rightarrow> string \<Rightarrow> string \<Rightarrow> ticket_status \<Rightarrow> ticket list \<Rightarrow> ticket list" where
  "edit_updater cid ttl desc stat prev = map (edit_ticket cid ttl desc stat) prev"

definition newTicket :: "nat \<Rightarrow> string \<Rightarrow> string \<Rightarrow> ticket_status \<Rightarrow> ticket" where
  "newTicket now ttl desc stat =
    \<lparr>t_id = toString now, t_title = ttl, t_description = desc, t_status = stat,
     t_rating = None\<rparr>"

definition append_updater :: "ticket \<Rightarrow> ticket list \<Rightarrow> ticket list" where
  "append_updater nt prev = prev @ [nt]"

definition delete_updater :: "string \<Rightarrow> ticket list \<Rightarrow> ticket list" where
  "delete_updater i prev = filter (\<lambda>t. t_id t \<noteq> i) prev"

definition rate_ticket :: "string \<Rightarrow> int \<Rightarrow> ticket \<Rightarrow> ticket" where
  "rate_ticket i newRating t = (if t_id t = i then t\<lparr>t_rating := Some newRating\<rparr> else t)"

definition rating_updater :: "string \<Rightarrow> int \<Rightarrow> ticket list \<Rightarrow> ticket list" where
  "rating_updater i newRating prev = map (rate_ticket i newRating) prev"

section \<open>The handlers of \<^verbatim>\<open>App\<close>\<close>

text \<open>
  Every handler runs to completion on the state of the latest render and returns the
  state of the next one. \<open>openModal None\<close> is the call without an argument.
\<close>

definition openModal :: "ticket option \<Rightarrow> app \<Rightarrow> app" where
  "openModal arg st =
    (case arg of
       Some tk \<Rightarrow>
         st\<lparr>isEditing := True, currentId := Some (t_id tk), title := t_title tk,
            description := t_description tk, status := t_status tk\<rparr>
     | None \<Rightarrow>
         st\<lparr>isEditing := False, currentId := None, title := [], description := [],
            status := Created\<rparr>)
    \<lparr>modalVisible := True\<rparr>"

text \<open>
  The test \<^verbatim>\<open>isEditing && currentId\<close>: a \<^verbatim>\<open>string | null\<close> is truthy when it is
  neither \<^verbatim>\<open>null\<close> nor the empty string. \<open>edit_target\<close> is the id the first branch
  of \<^verbatim>\<open>saveTicket\<close> works on, when that branch is taken.
\<close>

definition edit_target :: "app \<Rightarrow> string option" where
  "edit_target st =
    (if isEditing st
     then (case currentId st of None \<Rightarrow> None | Some c \<Rightarrow> if c = [] then None else Some c)
     else None)"

definition saveTicket :: "nat \<Rightarrow> app \<Rightarrow> app" where
  "saveTicket now st =
    (case edit_target st of
       Some cid \<Rightarrow>
         st\<lparr>tickets := edit_updater cid (title st) (description st) (status st) (tickets st)\<rparr>
     | None \<Rightarrow>
         st\<lparr>tickets :=
              append_updater (newTicket now (title st) (description st) (status st)) (tickets st)\<rparr>)
    \<lparr>modalVisible := False\<rparr>"

definition deleteTicket :: "string \<Rightarrow> app \<Rightarrow> app" where
  "deleteTicket i st = st\<lparr>tickets := delete_updater i (tickets st)\<rparr>"

definition updateRating :: "string \<Rightarrow> int \<Rightarrow> app \<Rightarrow> app" where
  "updateRating i newRating st = st\<lparr>tickets := rating_updater i newRating (tickets st)\<rparr>"

text \<open>
  The form fields: \<^verbatim>\<open>onChangeText={setTitle}\<close>, \<^verbatim>\<open>onChangeText={setDescription}\<close>
  and the picker's \<^verbatim>\<open>setStatus(itemValue)\<close>.
\<close>

definition setTitle :: "string \<Rightarrow> app \<Rightarrow> app" where
  "setTitle v st = st\<lparr>title := v\<rparr>"

definition setDescription :: "string \<Rightarrow> app \<Rightarrow> app" where
  "setDescription v st = st\<lparr>description := v\<rparr>"

definition setStatus :: "ticket_status \<Rightarrow> app \<Rightarrow> app" where
  "setStatus v st = st\<lparr>status := v\<rparr>"

text \<open>The Cancel button of the modal: \<^verbatim>\<open>() => setModalVisible(false)\<close>.\<close>

definition cancel :: "app \<Rightarrow> app" where
  "cancel st = st\<lparr>modalVisible := False\<rparr>"

section \<open>The counter screen\<close>

text \<open>
  \<^verbatim>\<open>Counter\<close> holds one number, starting at \<open>0\<close>, and three buttons. The count is an
  \<open>int\<close>: a JavaScript number is exact on integers of magnitude below \<open>2 ^ 53\<close>,
  which no sequence of presses leaves.
\<close>

definition count_initial :: int where
  "count_initial = 0"

definition increment :: "int \<Rightarrow> int" where
  "increment count = count + 1"

definition decrement :: "int \<Rightarrow> int" where
  "decrement count = count - 1"

definition reset :: "int \<Rightarrow> int" where
  "reset count = 0"

section \<open>The rating control as rendered\<close>

text \<open>
  \<^verbatim>\<open>Rating\<close> renders one button for each element of \<^verbatim>\<open>[1, 2, 3, 4, 5]\<close>, and the
  button of \<^verbatim>\<open>star\<close> calls \<^verbatim>\<open>onChange(star)\<close>. \<^verbatim>\<open>TicketItem\<close> renders
  \<^verbatim>\<open>Rating\<close> only under \<^verbatim>\<open>ticket.status === 'Completed'\<close>, with
  \<^verbatim>\<open>onChange\<close> set to its \<^verbatim>\<open>onUpdateRating\<close>, which \<^verbatim>\<open>App\<close> sets to
  \<^verbatim>\<open>(rating) => updateRating(item.id, rating)\<close> for each row. No other place of
  the source mentions \<^verbatim>\<open>updateRating\<close>. \<open>App_rating_calls\<close> lists the argument
  pairs of all calls of \<^verbatim>\<open>updateRating\<close> that the rendered list can make.
\<close>

definition Rating_stars :: "int list" where
  "Rating_stars = [1, 2, 3, 4, 5]"

definition TicketItem_ratings :: "ticket \<Rightarrow> int list" where
  "TicketItem_ratings tk = (if t_status tk = Completed then Rating_stars else [])"

definition App_rating_calls :: "app \<Rightarrow> (string \<times> int) list" where
  "App_rating_calls st =
    concat (map (\<lambda>item. map (\<lambda>r. (t_id item, r)) (TicketItem_ratings item)) (tickets st))"

section \<open>Sequences of store operations\<close>

text \<open>
  The four ways the ticket list changes, as data, so that a sequence of them can be run:
  the two branches of \<^verbatim>\<open>saveTicket\<close>, \<^verbatim>\<open>deleteTicket\<close> and \<^verbatim>\<open>updateRating\<close>.
  \<open>states_after ts ops\<close> is the list of stores after each operation in turn.
\<close>

datatype store_op =
    Create nat string string ticket_status
  | Update string string string ticket_status
  | Delete string
  | Rate string int

fun apply_op :: "store_op \<Rightarrow> ticket list \<Rightarrow> ticket list" where
  "apply_op (Create now ttl desc stat) ts = append_updater (newTicket now ttl desc stat) ts"
| "apply_op (Update i ttl desc stat) ts = edit_updater i ttl desc stat ts"
| "apply_op (Delete i) ts = delete_updater i ts"
| "apply_op (Rate i v) ts = rating_updater i v ts"

fun states_after :: "ticket list \<Rightarrow> store_op list \<Rightarrow> ticket list list" where
  "states_after ts [] = []"
| "states_after ts (x # xs) = apply_op x ts # states_after (apply_op x ts) xs"

text \<open>The invariant of one ticket and of a store: a rating only on a completed ticket.\<close>

definition rating_inv :: "ticket \<Rightarrow> bool" where
  "rating_inv t = (t_rating t = None \<or> t_status t = Completed)"

definition store_inv :: "ticket list \<Rightarrow> bool" where
  "store_inv ts = list_all rating_inv ts"

text \<open>
  A rating operation respects the gate of \<^verbatim>\<open>TicketItem\<close> when every ticket it
  reaches is completed; \<open>guarded ts ops\<close> says so of each rating operation of the
  sequence, in the store it is applied to.
\<close>

fun rate_on_completed :: "ticket list \<Rightarrow> store_op \<Rightarrow> bool" where
  "rate_on_completed ts (Rate i v) = list_all (\<lambda>t. t_id t = i \<longrightarrow> t_status t = Completed) ts"
| "rate_on_completed ts _ = True"

fun guarded :: "ticket list \<Rightarrow> store_op list \<Rightarrow> bool" where
  "guarded ts [] = True"
| "guarded ts (x # xs) = (rate_on_completed ts x \<and> guarded (apply_op x ts) xs)"

section \<open>A store with two tickets of one id\<close>

text \<open>
  The state after two creates at one clock reading, the second with the status set to
  Completed: the form is opened and saved twice, and \<^verbatim>\<open>Date.now()\<close> returns
  1700000000000 both times.
\<close>

definition twins :: app where
  "twins =
    saveTicket 1700000000000 (setStatus Completed (openModal None
      (saveTicket 1700000000000 (openModal None initial))))"

section \<open>Facts about the updaters\<close>

text \<open>The decimal rendering of a clock reading is never the empty string.\<close>

lemma toString_nonempty: "toString n \<noteq> []"
  by (subst toString.simps) simp

lemma toString_nonempty': "[] \<noteq> toString n"
  using toString_nonempty [of n] by (rule not_sym)

text \<open>Both mapping updaters keep the length and work position by position.\<close>

lemma length_edit_updater: "length (edit_updater i a b s ts) = length ts"
  by (simp add: edit_updater_def)

lemma nth_edit_updater:
  "k < length ts \<Longrightarrow> edit_updater i a b s ts ! k = edit_ticket i a b s (ts ! k)"
  by (simp add: edit_updater_def)

lemma length_rating_updater: "length (rating_updater i v ts) = length ts"
  by (simp add: rating_updater_def)

lemma nth_rating_updater:
  "k < length ts \<Longrightarrow> rating_updater i v ts ! k = rate_ticket i v (ts ! k)"
  by (simp add: rating_updater_def)

text \<open>An id that no ticket carries: every by-id updater returns the list it was given.\<close>

lemma edit_updater_unknown: "i \<notin> t_id ` set ts \<Longrightarrow> edit_updater i a b s ts = ts"
  unfolding edit_updater_def by (rule map_idI) (auto simp: edit_ticket_def)

lemma rating_updater_unknown: "i \<notin> t_id ` set ts \<Longrightarrow> rating_updater i v ts = ts"
  unfolding rating_updater_def by (rule map_idI) (auto simp: rate_ticket_def)

lemma delete_updater_unknown: "i \<notin> t_id ` set ts \<Longrightarrow> delete_updater i ts = ts"
  unfolding delete_updater_def by (rule filter_True) auto

text \<open>
  The two branches of \<^verbatim>\<open>saveTicket\<close>, and the sessions that lead to each: a session
  opened without a ticket always creates; a session opened on a ticket edits it, when the
  ticket's id is not the empty string (which \<^verbatim>\<open>isEditing && currentId\<close> takes for
  false).
\<close>

lemma saveTicket_edit:
  "edit_target st = Some i \<Longrightarrow>
   tickets (saveTicket now st) = edit_updater i (title st) (description st) (status st) (tickets st)"
  by (simp add: saveTicket_def)

lemma saveTicket_new:
  "edit_target st = None \<Longrightarrow>
   tickets (saveTicket now st) =
     append_updater (newTicket now (title st) (description st) (status st)) (tickets st)"
  by (simp add: saveTicket_def)

lemma edit_target_create_session:
  "edit_target (setStatus s (setDescription b (setTitle a (openModal None st)))) = None"
  by (simp add: edit_target_def setStatus_def setDescription_def setTitle_def openModal_def)

lemma edit_target_edit_session:
  "t_id tk \<noteq> [] \<Longrightarrow>
   edit_target (setStatus s (setDescription b (setTitle a (openModal (Some tk) st)))) = Some (t_id tk)"
  by (simp add: edit_target_def setStatus_def setDescription_def setTitle_def openModal_def)

text \<open>
  What each updater does to the list of ids. No updater changes the id of a ticket it
  keeps; a new ticket's id is the rendering of the clock reading. No id is ever empty,
  and the ids stay pairwise distinct as long as every new reading renders to an id that
  is not in the store.
\<close>

lemma ids_edit_updater: "map t_id (edit_updater i a b s ts) = map t_id ts"
  by (simp add: edit_updater_def edit_ticket_def)

lemma ids_rating_updater: "map t_id (rating_updater i v ts) = map t_id ts"
  by (simp add: rating_updater_def rate_ticket_def)

lemma ids_delete_updater: "map t_id (delete_updater i ts) = filter (\<lambda>x. x \<noteq> i) (map t_id ts)"
  by (simp add: delete_updater_def filter_map comp_def)

lemma ids_append_updater:
  "map t_id (append_updater (newTicket now a b s) ts) = map t_id ts @ [toString now]"
  by (simp add: append_updater_def newTicket_def)

lemma ids_nonempty_apply_op:
  "[] \<notin> set (map t_id ts) \<Longrightarrow> [] \<notin> set (map t_id (apply_op x ts))"
  by (cases x)
    (simp_all only: apply_op.simps ids_edit_updater ids_rating_updater ids_delete_updater
       ids_append_updater, auto simp: toString_nonempty')

lemma distinct_ids_apply_op:
  "distinct (map t_id ts) \<Longrightarrow> (\<forall>now a b s. x = Create now a b s \<longrightarrow> toString now \<notin> t_id ` set ts)
    \<Longrightarrow> distinct (map t_id (apply_op x ts))"
  by (cases x)
    (simp_all only: apply_op.simps ids_edit_updater ids_rating_updater ids_delete_updater
       ids_append_updater, auto)

text \<open>The rating invariant, ticket by ticket and operation by operation.\<close>

lemma rating_inv_edit_ticket: "rating_inv t \<Longrightarrow> rating_inv (edit_ticket i a b s t)"
  by (simp add: rating_inv_def edit_ticket_def)

lemma rating_inv_rate_ticket:
  "rating_inv t \<Longrightarrow> (t_id t = i \<longrightarrow> t_status t = Completed) \<Longrightarrow> rating_inv (rate_ticket i v t)"
  by (simp add: rating_inv_def rate_ticket_def)

lemma store_inv_apply_op:
  assumes "store_inv ts" and "rate_on_completed ts x"
  shows "store_inv (apply_op x ts)"
proof (cases x)
  case (Create now a b s)
  then show ?thesis
    using assms by (simp add: store_inv_def append_updater_def newTicket_def rating_inv_def)
next
  case (Update i a b s)
  then show ?thesis
    using assms by (simp add: store_inv_def edit_updater_def list_all_iff rating_inv_edit_ticket)
next
  case (Delete i)
  then show ?thesis
    using assms by (simp add: store_inv_def delete_updater_def list_all_iff)
next
  case (Rate i v)
  then show ?thesis
    using assms by (simp add: store_inv_def rating_updater_def list_all_iff rating_inv_rate_ticket)
qed

lemma store_inv_states_after:
  "store_inv ts \<Longrightarrow> guarded ts ops \<Longrightarrow> list_all store_inv (states_after ts ops)"
proof (induction ops arbitrary: ts)
  case Nil
  then show ?case by simp
next
  case (Cons x xs)
  from Cons.prems have step: "store_inv (apply_op x ts)"
    by (simp add: store_inv_apply_op)
  from Cons.prems have "guarded (apply_op x ts) xs" by simp
  with step Cons.IH show ?case by simp
qed

lemma store_inv_seed: "store_inv seed"
  by (simp add: store_inv_def seed_def rating_inv_def)

text \<open>
  With pairwise distinct ids, every call of \<^verbatim>\<open>updateRating\<close> that the rendered list
  can make reaches completed tickets only.
\<close>

lemma gate_gives_guard:
  assumes "distinct (map t_id (tickets st))" and "(i, v) \<in> set (App_rating_calls st)"
  shows "rate_on_completed (tickets st) (Rate i v)"
proof -
  from assms(2) obtain item where item: "item \<in> set (tickets st)" "t_id item = i"
    "t_status item = Completed"
    by (auto simp: App_rating_calls_def TicketItem_ratings_def split: if_splits)
  from assms(1) have inj: "inj_on t_id (set (tickets st))"
    by (simp add: distinct_map)
  have "t_status t = Completed" if "t \<in> set (tickets st)" "t_id t = i" for t
  proof -
    from inj that item have "t = item" by (auto dest: inj_onD)
    with item show ?thesis by simp
  qed
  then show ?thesis by (simp add: list_all_iff)
qed

text \<open>
  The handlers \<^verbatim>\<open>deleteTicket\<close> and \<^verbatim>\<open>updateRating\<close> apply their updater to the list
  of the state, and \<^verbatim>\<open>saveTicket\<close> takes its first branch in an editing session with a
  non-empty current id.
\<close>

lemma edit_target_editing:
  "isEditing st \<Longrightarrow> currentId st = Some i \<Longrightarrow> i \<noteq> [] \<Longrightarrow> edit_target st = Some i"
  by (simp add: edit_target_def)

lemma tickets_deleteTicket: "tickets (deleteTicket i st) = delete_updater i (tickets st)"
  by (simp add: deleteTicket_def)

lemma tickets_updateRating: "tickets (updateRating i v st) = rating_updater i v (tickets st)"
  by (simp add: updateRating_def)

text \<open>The edit updater at a position that holds the id, and at one that does not.\<close>

lemma edit_updater_at:
  assumes "k < length ts" and "t_id (ts ! k) = i"
  shows "edit_updater i a b s ts ! k =
      (ts ! k)\<lparr>t_title := a, t_description := b, t_status := s,
        t_rating := (if s = Completed then t_rating (ts ! k) else None)\<rparr>"
  using assms by (simp add: nth_edit_updater edit_ticket_def)

lemma edit_updater_other_id:
  "j < length ts \<Longrightarrow> t_id (ts ! j) \<noteq> i \<Longrightarrow> edit_updater i a b s ts ! j = ts ! j"
  by (simp add: nth_edit_updater edit_ticket_def)

lemma distinct_ids_other_position:
  assumes "distinct (map t_id ts)" and "k < length ts" and "j < length ts" and "j \<noteq> k"
  shows "t_id (ts ! j) \<noteq> t_id (ts ! k)"
proof
  assume "t_id (ts ! j) = t_id (ts ! k)"
  with assms have "map t_id ts ! j = map t_id ts ! k" by simp
  with assms show False by (simp add: nth_eq_iff_index_eq del: nth_map)
qed

text \<open>The seed has three tickets; the state \<open>twins\<close> written out.\<close>

lemma length_seed: "length seed = 3"
  by (simp add: seed_def)

lemma twins_state:
  "twins =
    \<lparr>tickets = seed @
       [\<lparr>t_id = ''1700000000000'', t_title = [], t_description = [], t_status = Created,
         t_rating = None\<rparr>,
        \<lparr>t_id = ''1700000000000'', t_title = [], t_description = [], t_status = Completed,
         t_rating = None\<rparr>],
     modalVisible = False, isEditing = False, currentId = None, title = [],
     description = [], status = Completed\<rparr>"
  by (simp add: twins_def saveTicket_def openModal_def setStatus_def edit_target_def initial_def
      append_updater_def newTicket_def toString.simps digit_def)

section \<open>The rating invariant\<close>

text \<open>
  C1 (as amended). Start from the seed store and apply any sequence of create, update,
  delete and rate operations in which every rate operation is applied to an id all of
  whose tickets are completed at that moment. Then after each operation every ticket of
  the store has no rating or has status Completed.
\<close>

theorem C1_invariant_under_gate:
  "guarded seed ops \<Longrightarrow> list_all store_inv (states_after seed ops)"
  by (rule store_inv_states_after [OF store_inv_seed])

text \<open>
  A sequence that meets the condition and uses all four operations: it rates the seed's
  completed ticket, moves it away from Completed, creates a ticket, deletes one, completes
  another and rates that one.
\<close>

theorem C1_invariant_under_gate_witness:
  "guarded seed
     [Rate ''3'' 5, Update ''3'' ''X'' ''Y'' UnderAssistance, Create 7 ''A'' ''B'' Completed,
      Delete ''1'', Update ''2'' ''P'' ''Q'' Completed, Rate ''2'' 2]
   \<and> list_all store_inv (states_after seed
     [Rate ''3'' 5, Update ''3'' ''X'' ''Y'' UnderAssistance, Create 7 ''A'' ''B'' Completed,
      Delete ''1'', Update ''2'' ''P'' ''Q'' Completed, Rate ''2'' 2])"
proof -
  have g: "guarded seed
     [Rate ''3'' 5, Update ''3'' ''X'' ''Y'' UnderAssistance, Create 7 ''A'' ''B'' Completed,
      Delete ''1'', Update ''2'' ''P'' ''Q'' Completed, Rate ''2'' 2]"
    by (simp add: seed_def rating_updater_def rate_ticket_def edit_updater_def edit_ticket_def
        append_updater_def newTicket_def delete_updater_def toString.simps digit_def)
  show ?thesis using g C1_invariant_under_gate [OF g] by simp
qed

text \<open>
  C1 as it is written fails: \<^verbatim>\<open>updateRating\<close> does not look at the status, so rating
  the seed ticket \<^verbatim>\<open>'1'\<close>, whose status is Created, leaves a rated ticket that is not
  completed.
\<close>

theorem C1_counterexample:
  "\<not> list_all store_inv (states_after seed [Rate ''1'' 3])"
  by (simp add: seed_def store_inv_def rating_inv_def rating_updater_def rate_ticket_def)

section \<open>Operations on an id that is not in the store\<close>

text \<open>
  C2. When no ticket of the store has the id, deleting by it and rating by it return the
  state they were given, the edit updater returns the list it was given, and so does a
  save of an edit session on that id. Nothing in these handlers can throw, so the model
  has no failure outcome.
\<close>

theorem C2_unknown_id:
  assumes "i \<notin> t_id ` set (tickets st)"
  shows "deleteTicket i st = st
    \<and> updateRating i v st = st
    \<and> edit_updater i a b s (tickets st) = tickets st
    \<and> (edit_target st = Some i \<longrightarrow> tickets (saveTicket now st) = tickets st)"
  using assms
  by (simp add: deleteTicket_def updateRating_def delete_updater_unknown rating_updater_unknown
      edit_updater_unknown saveTicket_edit)

theorem C2_unknown_id_witness:
  "''9'' \<notin> t_id ` set (tickets initial)
   \<and> deleteTicket ''9'' initial = initial
   \<and> updateRating ''9'' 5 initial = initial
   \<and> edit_updater ''9'' ''X'' ''Y'' Completed (tickets initial) = tickets initial
   \<and> edit_target (openModal (Some \<lparr>t_id = ''9'', t_title = ''T'', t_description = ''D'',
         t_status = Created, t_rating = None\<rparr>) initial) = Some ''9''
   \<and> tickets (saveTicket 0 (openModal (Some \<lparr>t_id = ''9'', t_title = ''T'', t_description = ''D'',
         t_status = Created, t_rating = None\<rparr>) initial)) = tickets initial"
proof -
  let ?st = "openModal (Some \<lparr>t_id = ''9'', t_title = ''T'', t_description = ''D'',
         t_status = Created, t_rating = None\<rparr>) initial"
  have h: "''9'' \<notin> t_id ` set (tickets initial)" by (simp add: initial_def seed_def)
  have h': "''9'' \<notin> t_id ` set (tickets ?st)" by (simp add: openModal_def initial_def seed_def)
  have e: "edit_target ?st = Some ''9''" by (simp add: edit_target_def openModal_def)
  have t: "tickets ?st = tickets initial" by (simp add: openModal_def)
  show ?thesis
    using h e t C2_unknown_id [OF h, of 5 "''X''" "''Y''" Completed 0]
      C2_unknown_id [OF h', of 5 "''X''" "''Y''" Completed 0]
    by simp
qed

section \<open>Update\<close>

text \<open>
  C3 (as amended). When position \<open>k\<close> of a store holds a ticket with id \<open>i\<close>, the edit
  of \<open>i\<close> keeps the length of the list; the ticket at \<open>k\<close> keeps its id and gets the
  new title, description and status; its rating becomes absent when the new status is not
  Completed and is the old rating (present or absent) when it is Completed; every ticket
  with another id stays as it was, and when the ids of the store are pairwise distinct
  that is every other position. \<^verbatim>\<open>saveTicket\<close> applies exactly this edit, with the
  fields of the form, to the list of the state and closes the modal, whenever the session
  is editing and its current id is \<open>i\<close> and not the empty string.
\<close>

theorem C3_update:
  assumes "k < length ts" and "t_id (ts ! k) = i"
  shows "length (edit_updater i a b s ts) = length ts
    \<and> t_id (edit_updater i a b s ts ! k) = i
    \<and> t_title (edit_updater i a b s ts ! k) = a
    \<and> t_description (edit_updater i a b s ts ! k) = b
    \<and> t_status (edit_updater i a b s ts ! k) = s
    \<and> (s \<noteq> Completed \<longrightarrow> t_rating (edit_updater i a b s ts ! k) = None)
    \<and> (s = Completed \<longrightarrow> t_rating (edit_updater i a b s ts ! k) = t_rating (ts ! k))
    \<and> (\<forall>j < length ts. t_id (ts ! j) \<noteq> i \<longrightarrow> edit_updater i a b s ts ! j = ts ! j)
    \<and> (distinct (map t_id ts) \<longrightarrow>
         (\<forall>j < length ts. j \<noteq> k \<longrightarrow> edit_updater i a b s ts ! j = ts ! j))
    \<and> (isEditing st \<and> currentId st = Some i \<and> i \<noteq> [] \<longrightarrow>
         tickets (saveTicket now st)
           = edit_updater i (title st) (description st) (status st) (tickets st)
         \<and> modalVisible (saveTicket now st) = False)"
proof -
  note here = edit_updater_at [OF assms, of a b s]
  have fields: "t_id (edit_updater i a b s ts ! k) = i"
    "t_title (edit_updater i a b s ts ! k) = a"
    "t_description (edit_updater i a b s ts ! k) = b"
    "t_status (edit_updater i a b s ts ! k) = s"
    "s \<noteq> Completed \<longrightarrow> t_rating (edit_updater i a b s ts ! k) = None"
    "s = Completed \<longrightarrow> t_rating (edit_updater i a b s ts ! k) = t_rating (ts ! k)"
    using assms(2) here by auto
  have others: "\<forall>j < length ts. t_id (ts ! j) \<noteq> i \<longrightarrow> edit_updater i a b s ts ! j = ts ! j"
    by (simp add: edit_updater_other_id)
  have unique: "distinct (map t_id ts) \<longrightarrow>
      (\<forall>j < length ts. j \<noteq> k \<longrightarrow> edit_updater i a b s ts ! j = ts ! j)"
    using distinct_ids_other_position [of ts k] assms others by blast
  have handler: "isEditing st \<and> currentId st = Some i \<and> i \<noteq> [] \<longrightarrow>
      tickets (saveTicket now st)
        = edit_updater i (title st) (description st) (status st) (tickets st)
      \<and> modalVisible (saveTicket now st) = False"
    by (auto simp: saveTicket_edit edit_target_editing) (simp add: saveTicket_def edit_target_def)
  show ?thesis
    using fields others unique handler length_edit_updater [of i a b s ts] by blast
qed

text \<open>
  The seed ticket \<^verbatim>\<open>'3'\<close> is completed and rated 4. Its row's edit button opens the
  form on it; saving with title X, description Y and status Under Assistance clears the
  rating and leaves the two other tickets alone; saving with status Completed keeps the
  rating 4.
\<close>

theorem C3_update_witness:
  "(2::nat) < length seed \<and> t_id (seed ! 2) = ''3'' \<and> t_rating (seed ! 2) = Some 4
   \<and> t_status (seed ! 2) = Completed \<and> distinct (map t_id seed)
   \<and> tickets (saveTicket 0 (setStatus UnderAssistance (setDescription ''Y'' (setTitle ''X''
        (openModal (Some (seed ! 2)) initial)))))
      = edit_updater ''3'' ''X'' ''Y'' UnderAssistance seed
   \<and> t_rating (edit_updater ''3'' ''X'' ''Y'' UnderAssistance seed ! 2) = None
   \<and> t_title (edit_updater ''3'' ''X'' ''Y'' UnderAssistance seed ! 2) = ''X''
   \<and> edit_updater ''3'' ''X'' ''Y'' UnderAssistance seed ! 0 = seed ! 0
   \<and> edit_updater ''3'' ''X'' ''Y'' UnderAssistance seed ! 1 = seed ! 1
   \<and> tickets (saveTicket 0 (setStatus Completed (setDescription ''Y'' (setTitle ''X''
        (openModal (Some (seed ! 2)) initial)))))
      = edit_updater ''3'' ''X'' ''Y'' Completed seed
   \<and> t_rating (edit_updater ''3'' ''X'' ''Y'' Completed seed ! 2) = Some 4"
proof -
  let ?away = "setStatus UnderAssistance (setDescription ''Y'' (setTitle ''X''
        (openModal (Some (seed ! 2)) initial)))"
  let ?same = "setStatus Completed (setDescription ''Y'' (setTitle ''X''
        (openModal (Some (seed ! 2)) initial)))"
  have k: "(2::nat) < length seed" by (simp add: seed_def)
  have i: "t_id (seed ! 2) = ''3''" by (simp add: seed_def)
  have r: "t_rating (seed ! 2) = Some 4" "t_status (seed ! 2) = Completed"
    by (simp_all add: seed_def)
  have d: "distinct (map t_id seed)" by (simp add: seed_def)
  have sa: "isEditing ?away \<and> currentId ?away = Some ''3'' \<and> ''3'' \<noteq> []"
    "title ?away = ''X''" "description ?away = ''Y''" "status ?away = UnderAssistance"
    "tickets ?away = seed"
    by (simp_all add: setStatus_def setDescription_def setTitle_def openModal_def i initial_def)
  have ss: "isEditing ?same \<and> currentId ?same = Some ''3'' \<and> ''3'' \<noteq> []"
    "title ?same = ''X''" "description ?same = ''Y''" "status ?same = Completed"
    "tickets ?same = seed"
    by (simp_all add: setStatus_def setDescription_def setTitle_def openModal_def i initial_def)
  note away = C3_update [OF k i, of "''X''" "''Y''" UnderAssistance ?away 0]
  note same = C3_update [OF k i, of "''X''" "''Y''" Completed ?same 0]
  from away sa have h1: "tickets (saveTicket 0 ?away)
      = edit_updater ''3'' ''X'' ''Y'' UnderAssistance seed"
    by simp
  from same ss have h2: "tickets (saveTicket 0 ?same)
      = edit_updater ''3'' ''X'' ''Y'' Completed seed"
    by simp
  from away d have rest:
    "\<forall>j < length seed. j \<noteq> 2 \<longrightarrow> edit_updater ''3'' ''X'' ''Y'' UnderAssistance seed ! j = seed ! j"
    by blast
  have k0: "0 < length seed" and k1: "1 < length seed" by (simp_all add: seed_def)
  have r0: "edit_updater ''3'' ''X'' ''Y'' UnderAssistance seed ! 0 = seed ! 0"
    using rest [rule_format, OF k0] by simp
  have r1: "edit_updater ''3'' ''X'' ''Y'' UnderAssistance seed ! 1 = seed ! 1"
    using rest [rule_format, OF k1] by simp
  from away have a1: "t_rating (edit_updater ''3'' ''X'' ''Y'' UnderAssistance seed ! 2) = None"
    and a2: "t_title (edit_updater ''3'' ''X'' ''Y'' UnderAssistance seed ! 2) = ''X''"
    by simp_all
  from same r have s1: "t_rating (edit_updater ''3'' ''X'' ''Y'' Completed seed ! 2) = Some 4"
    by simp
  show ?thesis
    using k i r d h1 h2 r0 r1 a1 a2 s1 by blast
qed

text \<open>
  C3 as it is written fails on a store with two tickets of one id: in \<open>twins\<close> the
  edit button of row 3 opens the form on that ticket, and saving with the title X also
  rewrites the ticket of row 4, which is another ticket.
\<close>

theorem C3_counterexample:
  "t_id (tickets twins ! 3) = ''1700000000000''
   \<and> tickets twins ! 4 =
       \<lparr>t_id = ''1700000000000'', t_title = [], t_description = [], t_status = Completed,
        t_rating = None\<rparr>
   \<and> tickets (saveTicket 0 (setTitle ''X'' (openModal (Some (tickets twins ! 3)) twins))) ! 4 =
       \<lparr>t_id = ''1700000000000'', t_title = ''X'', t_description = [], t_status = Created,
        t_rating = None\<rparr>
   \<and> tickets (saveTicket 0 (setTitle ''X'' (openModal (Some (tickets twins ! 3)) twins))) ! 4
       \<noteq> tickets twins ! 4"
  by (simp add: twins_state nth_append length_seed saveTicket_def openModal_def setTitle_def
      edit_target_def edit_updater_def edit_ticket_def)

section \<open>Create\<close>

text \<open>
  C4. Appending a new ticket makes the list one longer, keeps all earlier tickets in
  place, and puts at the end a ticket with the given title, description and status, no
  rating, and the rendered clock reading as id. A save of a session opened without a
  ticket does exactly this with the fields of the form, whatever the state was. The
  functions are total: there is no failure outcome.
\<close>

theorem C4_create:
  "length (append_updater (newTicket now a b s) ts) = Suc (length ts)
   \<and> take (length ts) (append_updater (newTicket now a b s) ts) = ts
   \<and> t_id (append_updater (newTicket now a b s) ts ! length ts) = toString now
   \<and> t_title (append_updater (newTicket now a b s) ts ! length ts) = a
   \<and> t_description (append_updater (newTicket now a b s) ts ! length ts) = b
   \<and> t_status (append_updater (newTicket now a b s) ts ! length ts) = s
   \<and> t_rating (append_updater (newTicket now a b s) ts ! length ts) = None
   \<and> tickets (saveTicket now (setStatus s (setDescription b (setTitle a (openModal None st)))))
       = append_updater (newTicket now a b s) (tickets st)"
  by (simp add: saveTicket_new [OF edit_target_create_session])
    (simp add: append_updater_def newTicket_def setStatus_def setDescription_def setTitle_def
      openModal_def)

text \<open>The call \<^verbatim>\<open>create("A", "B", Created)\<close> on the initial state.\<close>

theorem C4_create_witness:
  "tickets (saveTicket 1700000000000
      (setStatus Created (setDescription ''B'' (setTitle ''A'' (openModal None initial)))))
    = seed @ [\<lparr>t_id = ''1700000000000'', t_title = ''A'', t_description = ''B'',
               t_status = Created, t_rating = None\<rparr>]"
  using C4_create [of 1700000000000 "''A''" "''B''" Created seed initial]
  by (simp add: initial_def append_updater_def newTicket_def toString.simps digit_def)

section \<open>Ids\<close>

text \<open>
  C5. The claim is that every create gives the new ticket an id that no ticket of the
  store has. The code takes the id from the clock, so two creates at one clock reading
  give two tickets one id: from the initial state, open the form and save, twice, both
  at the reading 1700000000000.
\<close>

theorem C5_duplicate_ids:
  "map t_id (tickets (saveTicket 1700000000000 (openModal None
       (saveTicket 1700000000000 (openModal None initial)))))
     = [''1'', ''2'', ''3'', ''1700000000000'', ''1700000000000'']
   \<and> \<not> distinct (map t_id (tickets (saveTicket 1700000000000 (openModal None
       (saveTicket 1700000000000 (openModal None initial))))))"
  by (simp add: saveTicket_def openModal_def edit_target_def initial_def seed_def
      append_updater_def newTicket_def toString.simps digit_def)

section \<open>Rate\<close>

text \<open>
  C6. When position \<open>k\<close> of the store holds a ticket with id \<open>i\<close> and \<open>v\<close> is between
  1 and 5, rating \<open>i\<close> with \<open>v\<close> sets the rating of that ticket to \<open>v\<close> whatever its
  status is, and leaves the status alone; the handler \<^verbatim>\<open>updateRating\<close> does this to
  the list of the state.
\<close>

theorem C6_rate:
  assumes "k < length ts" and "t_id (ts ! k) = i" and "1 \<le> v" and "v \<le> 5"
  shows "t_rating (rating_updater i v ts ! k) = Some v
    \<and> t_status (rating_updater i v ts ! k) = t_status (ts ! k)
    \<and> t_rating (tickets (updateRating i v st) ! k) = t_rating (rating_updater i v (tickets st) ! k)"
  using assms by (simp add: nth_rating_updater rate_ticket_def updateRating_def)

text \<open>The seed ticket \<^verbatim>\<open>'2'\<close> is under assistance; rating it 3 gives it the rating 3.\<close>

theorem C6_rate_witness:
  "(1::nat) < length seed \<and> t_id (seed ! 1) = ''2'' \<and> (1::int) \<le> 3 \<and> (3::int) \<le> 5
   \<and> t_status (seed ! 1) = UnderAssistance
   \<and> t_rating (rating_updater ''2'' 3 seed ! 1) = Some 3
   \<and> t_status (rating_updater ''2'' 3 seed ! 1) = UnderAssistance
   \<and> t_rating (tickets (updateRating ''2'' 3 initial) ! 1) = Some 3"
proof -
  have k: "(1::nat) < length seed" by (simp add: seed_def)
  have i: "t_id (seed ! 1) = ''2''" by (simp add: seed_def)
  have lo: "(1::int) \<le> 3" and hi: "(3::int) \<le> 5" by simp_all
  have u: "t_status (seed ! 1) = UnderAssistance" by (simp add: seed_def)
  have s: "tickets initial = seed" by (simp add: initial_def)
  show ?thesis
    using k i u C6_rate [OF k i lo hi, of initial] by (simp add: s)
qed

section \<open>Cancel\<close>

text \<open>
  C7. Cancel closes the modal and leaves the ticket list as it was. The fields of the
  session stay in the component state, but nothing reads them again: the next opening of
  the form overwrites every one of them, so the state after it is the same whatever the
  cancelled session held.
\<close>

theorem C7_cancel:
  "modalVisible (cancel st) = False
   \<and> tickets (cancel st) = tickets st
   \<and> openModal arg (cancel (st\<lparr>isEditing := e, currentId := c, title := a, description := b,
        status := s\<rparr>)) = openModal arg (cancel st)"
  by (cases arg) (simp_all add: cancel_def openModal_def)

section \<open>The counter\<close>

text \<open>
  C8. The counter starts at 0; increment adds exactly 1; decrement subtracts exactly 1
  and has no floor, so decrementing 0 gives -1; reset gives 0; and increment, increment,
  decrement, reset from the start ends at 0.
\<close>

theorem C8_counter:
  "count_initial = 0
   \<and> increment c = c + 1
   \<and> decrement c = c - 1
   \<and> decrement count_initial = - 1
   \<and> reset c = 0
   \<and> reset (decrement (increment (increment count_initial))) = 0"
  by (simp add: count_initial_def increment_def decrement_def reset_def)

section \<open>Tickets that share an id\<close>

text \<open>
  C9. The by-id operations reach every ticket with the id: at each position that holds
  the id, the edit sets title, description and status and the rating updater sets the
  rating; after a delete no ticket with the id is left, and the list is shorter by the
  number of tickets that had it. The handlers do exactly this to the list of the state:
  \<^verbatim>\<open>deleteTicket\<close> and \<^verbatim>\<open>updateRating\<close> always, \<^verbatim>\<open>saveTicket\<close> in an editing
  session on the id.
\<close>

theorem C9_all_matching:
  "(\<forall>k < length ts. t_id (ts ! k) = i \<longrightarrow>
      t_title (edit_updater i a b s ts ! k) = a
      \<and> t_description (edit_updater i a b s ts ! k) = b
      \<and> t_status (edit_updater i a b s ts ! k) = s
      \<and> t_rating (rating_updater i v ts ! k) = Some v)
   \<and> (\<forall>t \<in> set (delete_updater i ts). t_id t \<noteq> i)
   \<and> length (delete_updater i ts) + length (filter (\<lambda>t. t_id t = i) ts) = length ts
   \<and> tickets (deleteTicket i st) = delete_updater i (tickets st)
   \<and> tickets (updateRating i v st) = rating_updater i v (tickets st)
   \<and> (isEditing st \<and> currentId st = Some i \<and> i \<noteq> [] \<longrightarrow>
        tickets (saveTicket now st)
          = edit_updater i (title st) (description st) (status st) (tickets st))"
proof -
  have "length (filter (\<lambda>t. t_id t \<noteq> i) ts) + length (filter (\<lambda>t. t_id t = i) ts) = length ts"
    using sum_length_filter_compl [of "\<lambda>t. t_id t \<noteq> i" ts] by simp
  then have lists: "(\<forall>k < length ts. t_id (ts ! k) = i \<longrightarrow>
      t_title (edit_updater i a b s ts ! k) = a
      \<and> t_description (edit_updater i a b s ts ! k) = b
      \<and> t_status (edit_updater i a b s ts ! k) = s
      \<and> t_rating (rating_updater i v ts ! k) = Some v)
   \<and> (\<forall>t \<in> set (delete_updater i ts). t_id t \<noteq> i)
   \<and> length (delete_updater i ts) + length (filter (\<lambda>t. t_id t = i) ts) = length ts"
    by (simp add: nth_edit_updater nth_rating_updater edit_ticket_def rate_ticket_def
        delete_updater_def)
  have save: "isEditing st \<and> currentId st = Some i \<and> i \<noteq> [] \<longrightarrow>
        tickets (saveTicket now st)
          = edit_updater i (title st) (description st) (status st) (tickets st)"
    by (auto simp: saveTicket_edit edit_target_editing)
  show ?thesis
    using lists save tickets_deleteTicket [of i st] tickets_updateRating [of i v st] by blast
qed

text \<open>
  In \<open>twins\<close> the positions 3 and 4 hold one id. Editing through the form opened on
  row 3 rewrites both, rating by the id rates both, and deleting by the id removes both,
  leaving the seed.
\<close>

theorem C9_all_matching_witness:
  "t_id (tickets twins ! 3) = ''1700000000000'' \<and> t_id (tickets twins ! 4) = ''1700000000000''
   \<and> t_title (tickets (saveTicket 0 (setStatus UnderAssistance (setDescription ''Y''
        (setTitle ''X'' (openModal (Some (tickets twins ! 3)) twins))))) ! 3) = ''X''
   \<and> t_title (tickets (saveTicket 0 (setStatus UnderAssistance (setDescription ''Y''
        (setTitle ''X'' (openModal (Some (tickets twins ! 3)) twins))))) ! 4) = ''X''
   \<and> t_status (tickets (saveTicket 0 (setStatus UnderAssistance (setDescription ''Y''
        (setTitle ''X'' (openModal (Some (tickets twins ! 3)) twins))))) ! 4) = UnderAssistance
   \<and> t_rating (tickets (updateRating ''1700000000000'' 5 twins) ! 3) = Some 5
   \<and> t_rating (tickets (updateRating ''1700000000000'' 5 twins) ! 4) = Some 5
   \<and> length (tickets twins) = 5
   \<and> tickets (deleteTicket ''1700000000000'' twins) = seed
   \<and> t_id (seed ! 0) \<noteq> ''1700000000000''"
proof -
  let ?i = "''1700000000000''"
  let ?ts = "tickets twins"
  let ?st = "setStatus UnderAssistance (setDescription ''Y''
        (setTitle ''X'' (openModal (Some (tickets twins ! 3)) twins)))"
  have len: "length ?ts = 5" by (simp add: twins_state length_seed)
  have k3: "3 < length ?ts" and k4: "4 < length ?ts" by (simp_all add: len)
  have i3: "t_id (?ts ! 3) = ?i" and i4: "t_id (?ts ! 4) = ?i"
    by (simp_all add: twins_state nth_append length_seed)
  have sess: "isEditing ?st \<and> currentId ?st = Some ?i \<and> ?i \<noteq> []"
    "title ?st = ''X''" "description ?st = ''Y''" "status ?st = UnderAssistance"
    "tickets ?st = ?ts"
    by (simp_all add: setStatus_def setDescription_def setTitle_def openModal_def i3)
  note edit = C9_all_matching [of ?ts ?i "''X''" "''Y''" UnderAssistance 5 ?st 0]
  note rest = C9_all_matching [of ?ts ?i "''X''" "''Y''" UnderAssistance 5 twins 0]
  from edit sess have saved: "tickets (saveTicket 0 ?st)
      = edit_updater ?i ''X'' ''Y'' UnderAssistance ?ts"
    by simp
  from rest have rated: "tickets (updateRating ?i 5 twins) = rating_updater ?i 5 ?ts"
    and deleted: "tickets (deleteTicket ?i twins) = delete_updater ?i ?ts"
    by simp_all
  from rest have each: "\<forall>k < length ?ts. t_id (?ts ! k) = ?i \<longrightarrow>
      t_title (edit_updater ?i ''X'' ''Y'' UnderAssistance ?ts ! k) = ''X''
      \<and> t_status (edit_updater ?i ''X'' ''Y'' UnderAssistance ?ts ! k) = UnderAssistance
      \<and> t_rating (rating_updater ?i 5 ?ts ! k) = Some 5"
    by blast
  from each [rule_format, OF k3 i3] have at3:
    "t_title (tickets (saveTicket 0 ?st) ! 3) = ''X''"
    "t_rating (tickets (updateRating ?i 5 twins) ! 3) = Some 5"
    by (simp_all add: saved rated)
  from each [rule_format, OF k4 i4] have at4:
    "t_title (tickets (saveTicket 0 ?st) ! 4) = ''X''"
    "t_status (tickets (saveTicket 0 ?st) ! 4) = UnderAssistance"
    "t_rating (tickets (updateRating ?i 5 twins) ! 4) = Some 5"
    by (simp_all add: saved rated)
  have del: "tickets (deleteTicket ?i twins) = seed"
    unfolding deleted by (simp add: twins_state delete_updater_def seed_def)
  have "seed ! 0 \<in> set (delete_updater ?i ?ts)"
    unfolding deleted [symmetric] del by (simp add: seed_def)
  with rest have kept: "t_id (seed ! 0) \<noteq> ?i" by blast
  show ?thesis
    using i3 i4 at3 at4 len del kept by blast
qed

section \<open>The range of a rating\<close>

text \<open>
  C10. The rating is stored with no range check: for every integer \<open>v\<close>, the updater
  gives each ticket with the id exactly the rating \<open>v\<close>, and so does the handler
  \<^verbatim>\<open>updateRating\<close> on the list of the state. Every call of \<^verbatim>\<open>updateRating\<close> that the
  rendered list can make has a value between 1 and 5 and the id of a completed ticket of
  the store.
\<close>

theorem C10_rate_unvalidated:
  "(\<forall>k < length ts. t_id (ts ! k) = i \<longrightarrow> t_rating (rating_updater i v ts ! k) = Some v)
   \<and> tickets (updateRating i v st) = rating_updater i v (tickets st)
   \<and> (\<forall>k < length (tickets st). t_id (tickets st ! k) = i \<longrightarrow>
        t_rating (tickets (updateRating i v st) ! k) = Some v)
   \<and> (\<forall>c \<in> set (App_rating_calls st).
        1 \<le> snd c \<and> snd c \<le> 5
        \<and> (\<exists>tk \<in> set (tickets st). t_id tk = fst c \<and> t_status tk = Completed))"
  by (auto simp: tickets_updateRating nth_rating_updater rate_ticket_def App_rating_calls_def
      TicketItem_ratings_def Rating_stars_def split: if_splits)

text \<open>
  The handler called with 6, 0 and -2 on the seed ticket \<^verbatim>\<open>'3'\<close>, and the calls the
  initial list offers.
\<close>

theorem C10_rate_unvalidated_witness:
  "(2::nat) < length (tickets initial) \<and> t_id (tickets initial ! 2) = ''3''
   \<and> t_rating (tickets (updateRating ''3'' 6 initial) ! 2) = Some 6
   \<and> t_rating (tickets (updateRating ''3'' 0 initial) ! 2) = Some 0
   \<and> t_rating (tickets (updateRating ''3'' (- 2) initial) ! 2) = Some (- 2)
   \<and> t_rating (rating_updater ''3'' 6 (tickets initial) ! 2) = Some 6
   \<and> App_rating_calls initial = [(''3'', 1), (''3'', 2), (''3'', 3), (''3'', 4), (''3'', 5)]
   \<and> (1::int) \<le> snd (''3'', 4) \<and> snd (''3'', 4) \<le> (5::int)"
proof -
  have k: "(2::nat) < length (tickets initial)" by (simp add: initial_def seed_def)
  have i: "t_id (tickets initial ! 2) = ''3''" by (simp add: initial_def seed_def)
  have calls: "App_rating_calls initial = [(''3'', 1), (''3'', 2), (''3'', 3), (''3'', 4), (''3'', 5)]"
    by (simp add: App_rating_calls_def TicketItem_ratings_def Rating_stars_def initial_def seed_def)
  have c: "(''3'', 4) \<in> set (App_rating_calls initial)" by (simp add: calls)
  have six: "t_rating (tickets (updateRating ''3'' 6 initial) ! 2) = Some 6"
    using C10_rate_unvalidated [of "tickets initial" "''3''" 6 initial] k i by blast
  have six': "t_rating (rating_updater ''3'' 6 (tickets initial) ! 2) = Some 6"
    using C10_rate_unvalidated [of "tickets initial" "''3''" 6 initial] k i by blast
  have zero: "t_rating (tickets (updateRating ''3'' 0 initial) ! 2) = Some 0"
    using C10_rate_unvalidated [of "tickets initial" "''3''" 0 initial] k i by blast
  have neg: "t_rating (tickets (updateRating ''3'' (- 2) initial) ! 2) = Some (- 2)"
    using C10_rate_unvalidated [of "tickets initial" "''3''" "- 2" initial] k i by blast
  have range: "(1::int) \<le> snd (''3'', 4) \<and> snd (''3'', 4) \<le> (5::int)"
    using C10_rate_unvalidated [of "tickets initial" "''3''" 6 initial] c by blast
  show ?thesis
    using k i six six' zero neg calls range by blast
qed

end
